theory Spec2Isabelle
  imports Main "HOL-Library.Sublist" "HOL-Library.AList"
begin

section \<open>Python strings, integers and dictionaries\<close>

text \<open>
  A Python \<open>str\<close> is a sequence of Unicode code points. A \<^typ>\<open>char\<close> here is one
  code point below 256 (the Latin-1 range, which holds ASCII and the accented letters of
  Western European names), read by \<open>of_char\<close>; a \<^typ>\<open>string\<close> is a Python string of
  such code points. Code points from 256 on are not values of the type.

  \<open>str.lower()\<close> on this range maps each code point by itself: the capital letters A to Z
  (65 to 90), and those of Latin-1 from 192 to 222 except the multiplication sign 215, go
  to the code point 32 above; every other code point stays.
\<close>

definition char_lower :: "char \<Rightarrow> char" where
  "char_lower c =
     (let n = (of_char c :: nat) in
      if (65 \<le> n \<and> n \<le> 90) \<or> (192 \<le> n \<and> n \<le> 214) \<or> (216 \<le> n \<and> n \<le> 222)
      then char_of (n + 32) else c)"

text \<open>\<open>s.lower()\<close>\<close>

definition lower :: "string \<Rightarrow> string" where
  "lower s = map char_lower s"

text \<open>\<open>needle in hay\<close> on strings: the naive scan over every start position.\<close>

fun str_contains :: "string \<Rightarrow> string \<Rightarrow> bool" where
  "str_contains needle [] = (needle = [])"
| "str_contains needle (c # cs) = (prefix needle (c # cs) \<or> str_contains needle cs)"

text \<open>The code points \<open>str.strip()\<close> removes: those for which \<open>str.isspace()\<close> holds.\<close>

definition py_isspace :: "char \<Rightarrow> bool" where
  "py_isspace c = ((of_char c :: nat) \<in> {9, 10, 11, 12, 13, 28, 29, 30, 31, 32, 133, 160})"

text \<open>\<open>s.strip()\<close>\<close>

definition strip :: "string \<Rightarrow> string" where
  "strip s = rev (dropWhile py_isspace (rev (dropWhile py_isspace s)))"

text \<open>\<open>str(n)\<close> for an integer: decimal digits, with a minus sign when negative.\<close>

definition digit_char :: "nat \<Rightarrow> char" where
  "digit_char d = char_of (48 + d)"

fun str_nat :: "nat \<Rightarrow> string" where
  "str_nat n = (if n < 10 then [digit_char n] else str_nat (n div 10) @ [digit_char (n mod 10)])"

declare str_nat.simps [simp del]

definition str_int :: "int \<Rightarrow> string" where
  "str_int i = (if i < 0 then CHR ''-'' # str_nat (nat (- i)) else str_nat (nat i))"

text \<open>
  A Python \<open>dict\<close> keeps its keys in insertion order; assigning to a key that is already
  present replaces the value and leaves the key where it is. That is an association list
  with distinct keys under \<^const>\<open>AList.update\<close>.
\<close>

type_synonym ('k, 'v) dict = "('k \<times> 'v) list"

text \<open>\<open>d.get(k, default)\<close>\<close>

definition dict_get :: "('k, 'v) dict \<Rightarrow> 'k \<Rightarrow> 'v \<Rightarrow> 'v" where
  "dict_get d k dflt = (case map_of d k of Some v \<Rightarrow> v | None \<Rightarrow> dflt)"

section \<open>The catalogue records\<close>

text \<open>
  The records of the three datasets, with the keys the program reads. The numeric values
  of a weapon (\<open>stat_value\<close>, \<open>firearm_atk_value\<close>) are JSON numbers that the program
  only ever passes to \<open>str\<close>; their type is left open as \<open>'v\<close> and the functions take
  \<open>str\<close> on that type as the argument \<open>str_value\<close>.
\<close>

record stat_item =
  stat_id :: string
  stat_name :: string

record 'v base_stat_entry =
  stat_id :: string
  stat_value :: 'v

record 'v firearm_entry =
  firearm_atk_type :: string
  firearm_atk_value :: 'v

record 'v level_info =
  level :: int
  firearm :: "'v firearm_entry list"

record 'v weapon =
  weapon_id :: string
  weapon_name :: string
  weapon_type :: string
  weapon_tier :: string
  weapon_rounds_type :: string
  base_stat :: "'v base_stat_entry list"
  firearm_atk :: "'v level_info list"

record module_stat_entry =
  level :: int
  module_capacity :: int
  "value" :: string

record module =
  module_id :: string
  "module_name" :: string
  module_stat :: "module_stat_entry list"

text \<open>
  \<open>prepare_csv_rows\<close> tells a weapon from a module by the presence of the key
  \<open>weapon_id\<close>; here the two shapes are the two constructors.
\<close>

datatype 'v item = Weapon "'v weapon" | Module module

section \<open>Tables\<close>

text \<open>What the program uses of \<open>rich.table.Table\<close>: a title, columns and rows in order.\<close>

record table =
  title :: string
  columns :: "string list"
  rows :: "string list list"

definition Table :: "string \<Rightarrow> table" where
  "Table t = \<lparr>title = t, columns = [], rows = []\<rparr>"

definition add_column :: "string \<Rightarrow> table \<Rightarrow> table" where
  "add_column c t = t\<lparr>columns := columns t @ [c]\<rparr>"

definition add_row :: "string list \<Rightarrow> table \<Rightarrow> table" where
  "add_row r t = t\<lparr>rows := rows t @ [r]\<rparr>"

section \<open>Loading the stat names\<close>

text \<open>
  The dictionary comprehension of \<open>load_stat_data\<close>:
  \<open>{item["stat_id"]: item["stat_name"] for item in data}\<close>.
\<close>

definition stat_map_of :: "stat_item list \<Rightarrow> (string, string) dict" where
  "stat_map_of data =
     foldl (\<lambda>d item. AList.update (stat_item.stat_id item) (stat_name item) d) [] data"

section \<open>Search\<close>

text \<open>
  \<open>search_items\<close>: \<open>key\<close> is the name field the records are searched by
  (\<open>weapon_name\<close> or \<open>module_name\<close>).
\<close>

definition search_items :: "'r list \<Rightarrow> string \<Rightarrow> ('r \<Rightarrow> string) \<Rightarrow> 'r list" where
  "search_items items search_term key =
     filter (\<lambda>item. str_contains (lower search_term) (lower (key item))) items"

section \<open>Stat projection\<close>

text \<open>
  The lookup the program writes out at each of its uses:
  \<open>stat_map.get(id, f"Unknown Stat ({id})")\<close>.
\<close>

definition resolve_stat_name :: "(string, string) dict \<Rightarrow> string \<Rightarrow> string" where
  "resolve_stat_name stat_map sid = dict_get stat_map sid (''Unknown Stat ('' @ sid @ '')'')"

definition create_base_stats_table ::
  "('v \<Rightarrow> string) \<Rightarrow> 'v weapon \<Rightarrow> (string, string) dict \<Rightarrow> table" where
  "create_base_stats_table str_value weapon stat_map =
     (let t = Table (weapon_name weapon @ '' - Base Stats'');
          t = add_column ''Attribute'' t;
          t = add_column ''Value'' t;
          t = add_row [''Weapon ID'', weapon_id weapon] t;
          t = add_row [''Weapon Type'', weapon_type weapon] t;
          t = add_row [''Weapon Tier'', weapon_tier weapon] t;
          t = add_row [''Rounds Type'', weapon_rounds_type weapon] t
      in foldl (\<lambda>t stat.
                  add_row [resolve_stat_name stat_map (base_stat_entry.stat_id stat),
                           str_value (stat_value stat)] t)
               t (base_stat weapon))"

definition create_firearm_attack_table ::
  "('v \<Rightarrow> string) \<Rightarrow> 'v weapon \<Rightarrow> (string, string) dict \<Rightarrow> int \<Rightarrow> int \<Rightarrow> table" where
  "create_firearm_attack_table str_value weapon stat_map start_level end_level =
     (let t = Table (weapon_name weapon @ '' - Firearm Attack ('' @ str_int start_level
                       @ ''-'' @ str_int end_level @ '')'');
          t = add_column ''Level'' t;
          t = add_column ''Type'' t;
          t = add_column ''Value'' t
      in foldl (\<lambda>t level_info.
                  if start_level \<le> level_info.level level_info
                     \<and> level_info.level level_info \<le> end_level
                  then foldl (\<lambda>t fa.
                                add_row [str_int (level_info.level level_info),
                                         resolve_stat_name stat_map (firearm_atk_type fa),
                                         str_value (firearm_atk_value fa)] t)
                             t (firearm level_info)
                  else t)
               t (firearm_atk weapon))"

definition create_module_stats_table :: "module \<Rightarrow> table" where
  "create_module_stats_table m =
     (let t = Table (module_name m @ '' - Stats'');
          t = add_column ''Level'' t;
          t = add_column ''Capacity'' t;
          t = add_column ''Value'' t
      in foldl (\<lambda>t stat.
                  add_row ['''', '''', '''']
                    (add_row [str_int (module_stat_entry.level stat),
                              str_int (module_capacity stat), value stat] t))
               t (module_stat m))"

section \<open>CSV rows\<close>

text \<open>
  \<open>prepare_csv_rows\<close>. The stat map is optional in the source (\<open>None\<close> by default), and
  the stat sections are guarded by \<open>if stat_map:\<close>, which a Python dictionary passes
  when it has at least one entry.
\<close>

definition prepare_csv_rows ::
  "('v \<Rightarrow> string) \<Rightarrow> 'v item \<Rightarrow> (string, string) dict option \<Rightarrow> string list list" where
  "prepare_csv_rows str_value data stat_map =
     (case data of
        Weapon w \<Rightarrow>
          (let rs = [] @ [[''Weapon ID'', weapon_id w]];
               rs = rs @ [[''Weapon Type'', weapon_type w]];
               rs = rs @ [[''Weapon Tier'', weapon_tier w]];
               rs = rs @ [[''Rounds Type'', weapon_rounds_type w]];
               rs = rs @ [[]]
           in case stat_map of
                None \<Rightarrow> rs
              | Some sm \<Rightarrow>
                  if sm = [] then rs
                  else
                    (let rs = rs @ [[''Base Stats'']];
                         rs = foldl (\<lambda>rs stat.
                                 rs @ [[resolve_stat_name sm (base_stat_entry.stat_id stat),
                                        str_value (stat_value stat)]])
                               rs (base_stat w);
                         rs = rs @ [[]];
                         rs = rs @ [[''Firearm Attack (1-160)'']];
                         rs = rs @ [[''Level'', ''Type'', ''Value'']]
                     in foldl (\<lambda>rs level_info.
                                 foldl (\<lambda>rs fa.
                                          rs @ [[str_int (level_info.level level_info),
                                                 resolve_stat_name sm (firearm_atk_type fa),
                                                 str_value (firearm_atk_value fa)]])
                                       rs (firearm level_info))
                              rs (firearm_atk w)))
      | Module m \<Rightarrow>
          (let rs = [] @ [[''Module Name'', module_name m]];
               rs = rs @ [[]];
               rs = rs @ [[''Level'', ''Capacity'', ''Value'']]
           in foldl (\<lambda>rs stat.
                       rs @ [[str_int (module_stat_entry.level stat),
                              str_int (module_capacity stat), value stat]])
                    rs (module_stat m)))"

section \<open>The interactive flow\<close>

text \<open>The Python exceptions the program can end in.\<close>

datatype py_error =
  ValueError | StopIteration
  | ConnectionError | HTTPError nat | JSONDecodeError
  | FileExistsError | NotADirectoryError | IsADirectoryError | FileNotFoundError

text \<open>\<open>s.split(sep)\<close> for a one-character separator.\<close>

fun split_on :: "char \<Rightarrow> string \<Rightarrow> string list" where
  "split_on sep [] = [[]]"
| "split_on sep (c # cs) =
     (if c = sep then [] # split_on sep cs
      else (case split_on sep cs of [] \<Rightarrow> [[c]] | p # ps \<Rightarrow> (c # p) # ps))"

definition digit_val :: "char \<Rightarrow> nat option" where
  "digit_val c =
     (let n = (of_char c :: nat) in if 48 \<le> n \<and> n \<le> 57 then Some (n - 48) else None)"

fun parse_digits :: "nat \<Rightarrow> string \<Rightarrow> nat option" where
  "parse_digits acc [] = Some acc"
| "parse_digits acc (c # cs) =
     (case digit_val c of None \<Rightarrow> None | Some d \<Rightarrow> parse_digits (10 * acc + d) cs)"

text \<open>
  \<open>int(s)\<close> on a string: surrounding whitespace, an optional sign and decimal digits;
  anything else is a \<open>ValueError\<close>. (Python also accepts underscores between digits;
  the strings converted here are the window labels, which have none.)
\<close>

definition py_int :: "string \<Rightarrow> py_error + int" where
  "py_int s =
     (case strip s of
        [] \<Rightarrow> Inl ValueError
      | c # cs \<Rightarrow>
          if c = CHR ''-'' \<or> c = CHR ''+'' then
            (if cs = [] then Inl ValueError
             else case parse_digits 0 cs of
                    None \<Rightarrow> Inl ValueError
                  | Some n \<Rightarrow> Inr (if c = CHR ''-'' then - int n else int n))
          else case parse_digits 0 (c # cs) of
                 None \<Rightarrow> Inl ValueError
               | Some n \<Rightarrow> Inr (int n))"

text \<open>\<open>os.path.join(a, b)\<close> on POSIX paths.\<close>

definition path_join :: "string \<Rightarrow> string \<Rightarrow> string" where
  "path_join a b =
     (if b \<noteq> [] \<and> hd b = CHR ''/'' then b
      else if a = [] \<or> last a = CHR ''/'' then a @ b
      else a @ ''/'' @ b)"

text \<open>
  The operator's answers to the prompts of one search, in the order the program asks:
  \<open>None\<close> is a prompt left with Ctrl-C, which \<open>questionary\<close> returns as \<open>None\<close>.
\<close>

record answers =
  ans_search_term :: "string option"
  ans_selected :: "string option"
  ans_choice :: "string option"
  ans_next_action :: "string option"
  ans_output_dir :: "string option"
  ans_csv_file_name :: "string option"

text \<open>
  \<open>export_json_to_csv\<close>, up to the rows it hands to \<open>csv.writer\<close> and the path it
  opens; \<open>None\<close> when the operator gives no directory or no file name.
\<close>

definition get_csv_file_path :: "string \<Rightarrow> string option \<Rightarrow> string option" where
  "get_csv_file_path dir name =
     (case name of
        None \<Rightarrow> None
      | Some n \<Rightarrow> if n = [] then None else Some (path_join dir (n @ ''.csv'')))"

definition export_json_to_csv ::
  "('v \<Rightarrow> string) \<Rightarrow> 'v item \<Rightarrow> (string, string) dict option \<Rightarrow> answers
     \<Rightarrow> (string \<times> string list list) option" where
  "export_json_to_csv str_value data stat_map ans =
     (case ans_output_dir ans of
        None \<Rightarrow> None
      | Some dir \<Rightarrow>
          if dir = [] then None
          else case get_csv_file_path dir (ans_csv_file_name ans) of
                 None \<Rightarrow> None
               | Some csv_file_path \<Rightarrow>
                   Some (csv_file_path, prepare_csv_rows str_value data stat_map))"

definition attack_ranges :: "(int \<times> int) list" where
  "attack_ranges = [(1, 30), (31, 60), (61, 90), (91, 120), (121, 160)]"

definition options :: "string list" where
  "options = map (\<lambda>(start, end). str_int start @ ''-'' @ str_int end) attack_ranges"

record weapon_screen =
  base_stats_table :: table
  firearm_attack_table :: table
  exported :: "(string \<times> string list list) option"

text \<open>
  \<open>display_weapon_info\<close>: \<open>None\<close> when the operator picks \<open>Back\<close> or leaves the prompt,
  otherwise the two tables printed and what was exported.
\<close>

definition display_weapon_info ::
  "('v \<Rightarrow> string) \<Rightarrow> 'v weapon \<Rightarrow> (string, string) dict \<Rightarrow> answers
     \<Rightarrow> py_error + weapon_screen option" where
  "display_weapon_info str_value weapon stat_map ans =
     (case ans_choice ans of
        None \<Rightarrow> Inr None
      | Some ch \<Rightarrow>
          if ch = ''Back'' then Inr None
          else
            (case map py_int (split_on CHR ''-'' ch) of
               [Inr start, Inr end] \<Rightarrow>
                 Inr (Some
                   \<lparr>base_stats_table = create_base_stats_table str_value weapon stat_map,
                    firearm_attack_table =
                      create_firearm_attack_table str_value weapon stat_map start end,
                    exported =
                      (if ans_next_action ans = Some ''Output to CSV''
                       then export_json_to_csv str_value (Weapon weapon) (Some stat_map) ans
                       else None)\<rparr>)
             | _ \<Rightarrow> Inl ValueError))"

record module_screen =
  module_stats_table :: table
  module_exported :: "(string \<times> string list list) option"

definition display_module_info :: "module \<Rightarrow> answers \<Rightarrow> module_screen" where
  "display_module_info m ans =
     \<lparr>module_stats_table = create_module_stats_table m,
      module_exported =
        (if ans_next_action ans = Some ''Output to CSV''
         then export_json_to_csv (\<lambda>v::unit. []) (Module m) None ans
         else None)\<rparr>"

datatype 'a search_outcome = Exiting | EmptySearchTerm | NoMatches string | Displayed 'a

definition handle_search_weapons ::
  "('v \<Rightarrow> string) \<Rightarrow> 'v weapon list \<Rightarrow> (string, string) dict \<Rightarrow> string list \<Rightarrow> answers
     \<Rightarrow> py_error + weapon_screen option search_outcome" where
  "handle_search_weapons str_value weapons stat_map weapon_names ans =
     (case ans_search_term ans of
        None \<Rightarrow> Inr Exiting
      | Some term \<Rightarrow>
          if lower term = ''exit'' then Inr Exiting
          else if strip term = [] then Inr EmptySearchTerm
          else
            (let results = search_items weapons term weapon_name in
             if results = [] then Inr (NoMatches term)
             else
               (case (if length results > 1
                      then find (\<lambda>w. Some (weapon_name w) = ans_selected ans) results
                      else Some (hd results)) of
                  None \<Rightarrow> Inl StopIteration
                | Some weapon \<Rightarrow>
                    (case display_weapon_info str_value weapon stat_map ans of
                       Inl e \<Rightarrow> Inl e
                     | Inr scr \<Rightarrow> Inr (Displayed scr)))))"

definition handle_search_modules ::
  "module list \<Rightarrow> string list \<Rightarrow> answers \<Rightarrow> py_error + module_screen search_outcome" where
  "handle_search_modules modules module_names ans =
     (case ans_search_term ans of
        None \<Rightarrow> Inr Exiting
      | Some term \<Rightarrow>
          if lower term = ''exit'' then Inr Exiting
          else if strip term = [] then Inr EmptySearchTerm
          else
            (let results = search_items modules term module_name in
             if results = [] then Inr (NoMatches term)
             else
               (case (if length results > 1
                      then find (\<lambda>m. Some (module_name m) = ans_selected ans) results
                      else Some (hd results)) of
                  None \<Rightarrow> Inl StopIteration
                | Some m \<Rightarrow> Inr (Displayed (display_module_info m ans)))))"

text \<open>What a run of \<open>display_weapon_info\<close> exported and what it showed.\<close>

definition exported_rows :: "py_error + weapon_screen option \<Rightarrow> string list list option" where
  "exported_rows r =
     (case r of Inr (Some scr) \<Rightarrow> map_option snd (exported scr) | _ \<Rightarrow> None)"

definition shown_rows :: "py_error + weapon_screen option \<Rightarrow> string list list option" where
  "shown_rows r =
     (case r of Inr (Some scr) \<Rightarrow> Some (rows (firearm_attack_table scr)) | _ \<Rightarrow> None)"

section \<open>JSON text\<close>

text \<open>
  The text that \<open>json.dump\<close> writes and \<open>json.load\<close> reads, for JSON values without
  floating-point numbers: \<open>json_dumps\<close> with the separators and
  escapes of Python's defaults, and \<open>json_loads\<close> as a recursive-descent reader with
  fuel one more than the length of the text (every nested call comes after at least one
  character read). An object becomes a dictionary, so of two members with the same key
  the later value stays. The loaders below take the codec as a parameter; this one is
  used at the example environment.
\<close>

datatype json =
  JNull | JBool bool | JInt int | JString string
  | JArray "json list" | JObject "(string \<times> json) list"

definition hex_digit :: "nat \<Rightarrow> char" where
  "hex_digit d = (if d < 10 then char_of (48 + d) else char_of (87 + d))"

definition escape_char :: "char \<Rightarrow> string" where
  "escape_char c =
     (let n = (of_char c :: nat) in
      if c = CHR 0x22 then [CHR 0x5C, CHR 0x22]
      else if c = CHR 0x5C then [CHR 0x5C, CHR 0x5C]
      else if n = 10 then [CHR 0x5C, CHR ''n'']
      else if n = 13 then [CHR 0x5C, CHR ''r'']
      else if n = 9 then [CHR 0x5C, CHR ''t'']
      else if n = 8 then [CHR 0x5C, CHR ''b'']
      else if n = 12 then [CHR 0x5C, CHR ''f'']
      else if n < 32 \<or> 127 \<le> n then [CHR 0x5C, CHR ''u'', CHR ''0'', CHR ''0'',
                           hex_digit (n div 16), hex_digit (n mod 16)]
      else [c])"

definition dumps_string :: "string \<Rightarrow> string" where
  "dumps_string s = [CHR 0x22] @ concat (map escape_char s) @ [CHR 0x22]"

fun join :: "string \<Rightarrow> string list \<Rightarrow> string" where
  "join sep [] = []"
| "join sep [x] = x"
| "join sep (x # y # ys) = x @ sep @ join sep (y # ys)"

fun json_dumps :: "json \<Rightarrow> string" where
  "json_dumps JNull = ''null''"
| "json_dumps (JBool b) = (if b then ''true'' else ''false'')"
| "json_dumps (JInt i) = str_int i"
| "json_dumps (JString s) = dumps_string s"
| "json_dumps (JArray vs) = ''['' @ join '', '' (map json_dumps vs) @ '']''"
| "json_dumps (JObject kvs) =
     ''{'' @ join '', '' (map (\<lambda>kv. dumps_string (fst kv) @ '': '' @ json_dumps (snd kv)) kvs)
     @ ''}''"

definition is_ws :: "char \<Rightarrow> bool" where
  "is_ws c = ((of_char c :: nat) \<in> {9, 10, 13, 32})"

definition skip_ws :: "string \<Rightarrow> string" where
  "skip_ws s = dropWhile is_ws s"

definition is_digit :: "char \<Rightarrow> bool" where
  "is_digit c = (digit_val c \<noteq> None)"

definition parse_number :: "string \<Rightarrow> (json \<times> string) option" where
  "parse_number s =
     (let neg = (s \<noteq> [] \<and> hd s = CHR ''-'');
          s1 = (if neg then tl s else s);
          ds = takeWhile is_digit s1;
          rest = dropWhile is_digit s1
      in if ds = [] then None
         else if hd ds = CHR ''0'' \<and> length ds > 1 then None
         else if rest \<noteq> [] \<and> hd rest \<in> {CHR ''.'', CHR ''e'', CHR ''E''} then None
         else (case parse_digits 0 ds of
                 None \<Rightarrow> None
               | Some n \<Rightarrow> Some (JInt (if neg then - int n else int n), rest)))"

definition unescape :: "char \<Rightarrow> char option" where
  "unescape e =
     (if e = CHR 0x22 \<or> e = CHR 0x5C \<or> e = CHR ''/'' then Some e
      else if e = CHR ''b'' then Some (CHR 0x08)
      else if e = CHR ''f'' then Some (CHR 0x0C)
      else if e = CHR ''n'' then Some (CHR 0x0A)
      else if e = CHR ''r'' then Some (CHR 0x0D)
      else if e = CHR ''t'' then Some (CHR 0x09)
      else None)"

definition hex_val :: "char \<Rightarrow> nat option" where
  "hex_val c =
     (let n = (of_char c :: nat) in
      if 48 \<le> n \<and> n \<le> 57 then Some (n - 48)
      else if 97 \<le> n \<and> n \<le> 102 then Some (n - 87)
      else if 65 \<le> n \<and> n \<le> 70 then Some (n - 55)
      else None)"

definition unicode_escape :: "string \<Rightarrow> char option" where
  "unicode_escape hs =
     (case map hex_val hs of
        [Some a, Some b, Some c, Some d] \<Rightarrow>
          (let n = ((a * 16 + b) * 16 + c) * 16 + d in
           if n < 256 then Some (char_of n) else None)
      | _ \<Rightarrow> None)"

fun parse_string_chars :: "string \<Rightarrow> string \<Rightarrow> (string \<times> string) option" where
  "parse_string_chars acc [] = None"
| "parse_string_chars acc [c] = (if c = CHR 0x22 then Some (rev acc, []) else None)"
| "parse_string_chars acc (c # e # cs) =
     (if c = CHR 0x22 then Some (rev acc, e # cs)
      else if c = CHR 0x5C then
        (if e = CHR ''u'' then
           (case unicode_escape (take 4 cs) of
              None \<Rightarrow> None
            | Some x \<Rightarrow> parse_string_chars (x # acc) (drop 4 cs))
         else case unescape e of
                None \<Rightarrow> None
              | Some x \<Rightarrow> parse_string_chars (x # acc) cs)
      else if (of_char c :: nat) < 32 then None
      else parse_string_chars (c # acc) (e # cs))"

definition dict_of :: "('k \<times> 'v) list \<Rightarrow> ('k, 'v) dict" where
  "dict_of kvs = foldl (\<lambda>d kv. AList.update (fst kv) (snd kv) d) [] kvs"

fun parse_value :: "nat \<Rightarrow> string \<Rightarrow> (json \<times> string) option"
  and parse_elems :: "nat \<Rightarrow> string \<Rightarrow> (json list \<times> string) option"
  and parse_members :: "nat \<Rightarrow> string \<Rightarrow> ((string \<times> json) list \<times> string) option"
where
  "parse_value 0 s = None"
| "parse_value (Suc n) s =
     (case skip_ws s of
        [] \<Rightarrow> None
      | c # cs \<Rightarrow>
          if c = CHR ''['' then
            (case skip_ws cs of
               [] \<Rightarrow> None
             | d # ds \<Rightarrow>
                 if d = CHR '']'' then Some (JArray [], ds)
                 else (case parse_elems n (d # ds) of
                         None \<Rightarrow> None
                       | Some (vs, r) \<Rightarrow> Some (JArray vs, r)))
          else if c = CHR ''{'' then
            (case skip_ws cs of
               [] \<Rightarrow> None
             | d # ds \<Rightarrow>
                 if d = CHR ''}'' then Some (JObject [], ds)
                 else (case parse_members n (d # ds) of
                         None \<Rightarrow> None
                       | Some (kvs, r) \<Rightarrow> Some (JObject (dict_of kvs), r)))
          else if c = CHR 0x22 then
            (case parse_string_chars [] cs of
               None \<Rightarrow> None
             | Some (str, r) \<Rightarrow> Some (JString str, r))
          else if prefix ''null'' (c # cs) then Some (JNull, drop 4 (c # cs))
          else if prefix ''true'' (c # cs) then Some (JBool True, drop 4 (c # cs))
          else if prefix ''false'' (c # cs) then Some (JBool False, drop 5 (c # cs))
          else parse_number (c # cs))"
| "parse_elems 0 s = None"
| "parse_elems (Suc n) s =
     (case parse_value n s of
        None \<Rightarrow> None
      | Some (v, r) \<Rightarrow>
          (case skip_ws r of
             [] \<Rightarrow> None
           | c # cs \<Rightarrow>
               if c = CHR '','' then
                 (case parse_elems n cs of
                    None \<Rightarrow> None
                  | Some (vs, r') \<Rightarrow> Some (v # vs, r'))
               else if c = CHR '']'' then Some ([v], cs)
               else None))"
| "parse_members 0 s = None"
| "parse_members (Suc n) s =
     (case skip_ws s of
        [] \<Rightarrow> None
      | q # cs \<Rightarrow>
          if q \<noteq> CHR 0x22 then None
          else
            (case parse_string_chars [] cs of
               None \<Rightarrow> None
             | Some (k, r) \<Rightarrow>
                 (case skip_ws r of
                    [] \<Rightarrow> None
                  | c # r1 \<Rightarrow>
                      if c \<noteq> CHR '':'' then None
                      else
                        (case parse_value n r1 of
                           None \<Rightarrow> None
                         | Some (v, r2) \<Rightarrow>
                             (case skip_ws r2 of
                                [] \<Rightarrow> None
                              | d # r3 \<Rightarrow>
                                  if d = CHR '','' then
                                    (case parse_members n r3 of
                                       None \<Rightarrow> None
                                     | Some (kvs, r4) \<Rightarrow> Some ((k, v) # kvs, r4))
                                  else if d = CHR ''}'' then Some ([(k, v)], r3)
                                  else None)))))"

definition json_loads :: "string \<Rightarrow> json option" where
  "json_loads s =
     (case parse_value (Suc (length s)) s of
        None \<Rightarrow> None
      | Some (v, r) \<Rightarrow> if skip_ws r = [] then Some v else None)"

section \<open>The cache files and the remote endpoint\<close>

text \<open>
  A path is the list of its components; \<open>os.path.join\<close> appends a component and
  \<open>os.path.dirname\<close> drops the last one.
\<close>

type_synonym path = "string list"

definition dirname :: "path \<Rightarrow> path" where
  "dirname p = butlast p"

text \<open>
  The file system: the text of every regular file, by path, and the set of directories.
\<close>

record fs =
  files :: "(path, string) dict"
  dirs :: "path set"

text \<open>The outcome of \<open>requests.get\<close>: no connection, or a status code and a body.\<close>

datatype response = ConnectionFailed | Response nat string

text \<open>
  What the program reads from its environment: the platform and the two directories
  \<open>get_cache_dir\<close> starts from, the endpoint, and the JSON codec. \<open>json_load\<close> stands
  for \<open>json.load\<close> and \<open>response.json()\<close> (\<open>None\<close> when the text is not JSON) and
  \<open>json_dump\<close> for \<open>json.dump\<close>, on the dataset type \<open>'d\<close>.
\<close>

record 'd env =
  system :: string
  localappdata :: path
  home :: path
  http_get :: "string \<Rightarrow> response"
  json_load :: "string \<Rightarrow> 'd option"
  json_dump :: "'d \<Rightarrow> string"

definition get_cache_dir :: "'d env \<Rightarrow> path" where
  "get_cache_dir env =
     (if system env = ''Windows'' then localappdata env @ [''dev_tfd_search'']
      else home env @ [''.config'', ''dev_tfd_search''])"

definition CACHE_DIR :: "'d env \<Rightarrow> path" where
  "CACHE_DIR env = get_cache_dir env"

definition CACHE_FILE :: "'d env \<Rightarrow> path" where
  "CACHE_FILE env = CACHE_DIR env @ [''weapon.json'']"

definition STAT_CACHE_FILE :: "'d env \<Rightarrow> path" where
  "STAT_CACHE_FILE env = CACHE_DIR env @ [''stat.json'']"

definition MODULE_CACHE_FILE :: "'d env \<Rightarrow> path" where
  "MODULE_CACHE_FILE env = CACHE_DIR env @ [''module.json'']"

definition WEAPON_JSON_URL :: string where
  "WEAPON_JSON_URL = ''https://open.api.nexon.com/static/tfd/meta/en/weapon.json''"

definition STAT_JSON_URL :: string where
  "STAT_JSON_URL = ''https://open.api.nexon.com/static/tfd/meta/en/stat.json''"

definition MODULE_JSON_URL :: string where
  "MODULE_JSON_URL = ''https://open.api.nexon.com/static/tfd/meta/en/module.json''"

text \<open>
  The file operations of the program, one at a time, so that a run can be cut between
  any two of them. \<open>os.makedirs(d, exist_ok=True)\<close> creates \<open>d\<close> and every missing
  ancestor and fails when \<open>d\<close> or an ancestor is a regular file; \<open>open(f, "w")\<close>
  creates \<open>f\<close> or empties it; writing appends to the file; closing changes nothing more.
\<close>

datatype fs_op = MakeDirs path | OpenW path | Write path string | Close path

fun apply_op :: "fs_op \<Rightarrow> fs \<Rightarrow> py_error + fs" where
  "apply_op (MakeDirs d) s =
     (if map_of (files s) d \<noteq> None then Inl FileExistsError
      else if \<exists>p \<in> set (prefixes d). map_of (files s) p \<noteq> None then Inl NotADirectoryError
      else Inr (s\<lparr>dirs := dirs s \<union> set (prefixes d)\<rparr>))"
| "apply_op (OpenW f) s =
     (if f \<in> dirs s then Inl IsADirectoryError
      else if dirname f \<notin> dirs s then Inl FileNotFoundError
      else Inr (s\<lparr>files := AList.update f [] (files s)\<rparr>))"
| "apply_op (Write f text) s =
     Inr (s\<lparr>files :=
            AList.update f (case map_of (files s) f of None \<Rightarrow> text | Some old \<Rightarrow> old @ text)
              (files s)\<rparr>)"
| "apply_op (Close f) s = Inr s"

fun run_ops :: "fs_op list \<Rightarrow> fs \<Rightarrow> py_error + fs" where
  "run_ops [] s = Inr s"
| "run_ops (op # ops) s =
     (case apply_op op s of Inl e \<Rightarrow> Inl e | Inr s' \<Rightarrow> run_ops ops s')"

text \<open>
  Lines 40 to 42 of \<open>fetch_and_cache_json\<close>: make the parent directory, open the cache
  file for writing, dump the JSON text into it, close it.
\<close>

definition cache_write_ops :: "path \<Rightarrow> string \<Rightarrow> fs_op list" where
  "cache_write_ops cache_file text =
     [MakeDirs (dirname cache_file), OpenW cache_file, Write cache_file text, Close cache_file]"

definition fetch_and_cache_json ::
  "string \<Rightarrow> path \<Rightarrow> 'd env \<Rightarrow> fs \<Rightarrow> py_error + ('d \<times> fs)" where
  "fetch_and_cache_json url cache_file env s =
     (case http_get env url of
        ConnectionFailed \<Rightarrow> Inl ConnectionError
      | Response status body \<Rightarrow>
          if 400 \<le> status \<and> status < 600 then Inl (HTTPError status)
          else
            (case json_load env body of
               None \<Rightarrow> Inl JSONDecodeError
             | Some data \<Rightarrow>
                 (case run_ops (cache_write_ops cache_file (json_dump env data)) s of
                    Inl e \<Rightarrow> Inl e
                  | Inr s' \<Rightarrow> Inr (data, s'))))"

definition load_json_from_cache :: "path \<Rightarrow> 'd env \<Rightarrow> fs \<Rightarrow> py_error + 'd" where
  "load_json_from_cache cache_file env s =
     (if cache_file \<in> dirs s then Inl IsADirectoryError
      else case map_of (files s) cache_file of
             None \<Rightarrow> Inl FileNotFoundError
           | Some text \<Rightarrow>
               (case json_load env text of
                  None \<Rightarrow> Inl JSONDecodeError
                | Some data \<Rightarrow> Inr data))"

text \<open>\<open>os.path.exists\<close>\<close>

definition path_exists :: "fs \<Rightarrow> path \<Rightarrow> bool" where
  "path_exists s p = (map_of (files s) p \<noteq> None \<or> p \<in> dirs s)"

definition load_weapon_data :: "'d env \<Rightarrow> fs \<Rightarrow> py_error + ('d \<times> fs)" where
  "load_weapon_data env s =
     (if \<not> path_exists s (CACHE_FILE env)
      then fetch_and_cache_json WEAPON_JSON_URL (CACHE_FILE env) env s
      else case load_json_from_cache (CACHE_FILE env) env s of
             Inl e \<Rightarrow> Inl e
           | Inr data \<Rightarrow> Inr (data, s))"

definition load_stat_data ::
  "stat_item list env \<Rightarrow> fs \<Rightarrow> py_error + ((string, string) dict \<times> fs)" where
  "load_stat_data env s =
     (case (if \<not> path_exists s (STAT_CACHE_FILE env)
            then fetch_and_cache_json STAT_JSON_URL (STAT_CACHE_FILE env) env s
            else case load_json_from_cache (STAT_CACHE_FILE env) env s of
                   Inl e \<Rightarrow> Inl e
                 | Inr data \<Rightarrow> Inr (data, s)) of
        Inl e \<Rightarrow> Inl e
      | Inr (data, s') \<Rightarrow> Inr (stat_map_of data, s'))"

definition load_module_data :: "'d env \<Rightarrow> fs \<Rightarrow> py_error + ('d \<times> fs)" where
  "load_module_data env s =
     (if \<not> path_exists s (MODULE_CACHE_FILE env)
      then fetch_and_cache_json MODULE_JSON_URL (MODULE_CACHE_FILE env) env s
      else case load_json_from_cache (MODULE_CACHE_FILE env) env s of
             Inl e \<Rightarrow> Inl e
           | Inr data \<Rightarrow> Inr (data, s))"

text \<open>A write cut after its first \<open>k\<close> file operations.\<close>

definition interrupted_write :: "nat \<Rightarrow> path \<Rightarrow> string \<Rightarrow> fs \<Rightarrow> py_error + fs" where
  "interrupted_write k cache_file text s = run_ops (take k (cache_write_ops cache_file text)) s"

section \<open>The loader as the specification words it\<close>

text \<open>
  \<open>Fetcher.fetch\<close>: one GET, failing on a transport failure or a body that is not JSON.
\<close>

definition fetcher_fetch :: "'d env \<Rightarrow> string \<Rightarrow> py_error + 'd" where
  "fetcher_fetch env url =
     (case http_get env url of
        ConnectionFailed \<Rightarrow> Inl ConnectionError
      | Response status body \<Rightarrow>
          if 400 \<le> status \<and> status < 600 then Inl (HTTPError status)
          else case json_load env body of
                 None \<Rightarrow> Inl JSONDecodeError
               | Some records \<Rightarrow> Inr records)"

text \<open>\<open>Store.write\<close>\<close>

definition store_write :: "path \<Rightarrow> 'd env \<Rightarrow> 'd \<Rightarrow> fs \<Rightarrow> py_error + fs" where
  "store_write cache_file env records s =
     run_ops (cache_write_ops cache_file (json_dump env records)) s"

text \<open>
  \<open>load\<close>: if \<open>Store.exists\<close>, return \<open>Store.read\<close>; else
  \<open>records = Fetcher.fetch; Store.write(records); return records\<close>.
\<close>

definition load :: "string \<Rightarrow> path \<Rightarrow> 'd env \<Rightarrow> fs \<Rightarrow> py_error + ('d \<times> fs)" where
  "load url cache_file env s =
     (if path_exists s cache_file then
        (case load_json_from_cache cache_file env s of
           Inl e \<Rightarrow> Inl e
         | Inr records \<Rightarrow> Inr (records, s))
      else
        (case fetcher_fetch env url of
           Inl e \<Rightarrow> Inl e
         | Inr records \<Rightarrow>
             (case store_write cache_file env records s of
                Inl e \<Rightarrow> Inl e
              | Inr s' \<Rightarrow> Inr (records, s'))))"

section \<open>Case-insensitive matching as the specification words it\<close>




section \<open>The reports as the specification words them\<close>

text \<open>
  The rows of a report, written as the specification describes them: one row per entry,
  in the order of the record. The program builds its tables row by row in loops; the
  properties below compare the two.
\<close>

definition identity_rows :: "'v weapon \<Rightarrow> string list list" where
  "identity_rows w =
     [[''Weapon ID'', weapon_id w], [''Weapon Type'', weapon_type w],
      [''Weapon Tier'', weapon_tier w], [''Rounds Type'', weapon_rounds_type w]]"

definition base_stat_row ::
  "('v \<Rightarrow> string) \<Rightarrow> (string, string) dict \<Rightarrow> 'v base_stat_entry \<Rightarrow> string list" where
  "base_stat_row str_value stat_map stat =
     [resolve_stat_name stat_map (base_stat_entry.stat_id stat), str_value (stat_value stat)]"

definition firearm_rows ::
  "('v \<Rightarrow> string) \<Rightarrow> (string, string) dict \<Rightarrow> 'v level_info \<Rightarrow> string list list" where
  "firearm_rows str_value stat_map li =
     map (\<lambda>fa. [str_int (level_info.level li),
                resolve_stat_name stat_map (firearm_atk_type fa),
                str_value (firearm_atk_value fa)])
         (firearm li)"

definition module_row :: "module_stat_entry \<Rightarrow> string list" where
  "module_row stat =
     [str_int (module_stat_entry.level stat), str_int (module_capacity stat), value stat]"

text \<open>The CSV report of a weapon, section by section.\<close>

definition full_csv_report ::
  "('v \<Rightarrow> string) \<Rightarrow> 'v weapon \<Rightarrow> (string, string) dict \<Rightarrow> string list list" where
  "full_csv_report str_value w stat_map =
     identity_rows w @ [[]] @ [[''Base Stats'']]
     @ map (base_stat_row str_value stat_map) (base_stat w)
     @ [[]] @ [[''Firearm Attack (1-160)'']] @ [[''Level'', ''Type'', ''Value'']]
     @ concat (map (firearm_rows str_value stat_map) (firearm_atk w))"

section \<open>Example data\<close>



text \<open>A weapon whose firearm attack has the levels 1, 31, 91 and 121.\<close>

definition w4 :: "int weapon" where
  "w4 = \<lparr>weapon_id = ''w4'', weapon_name = ''Thunder Cage'', weapon_type = ''Submachine Gun'',
         weapon_tier = ''Ultimate'', weapon_rounds_type = ''General Rounds'',
         base_stat = [\<lparr>stat_id = ''501'', stat_value = 35\<rparr>,
                      \<lparr>stat_id = ''999'', stat_value = 2\<rparr>],
         firearm_atk =
           [\<lparr>level_info.level = 1,
             firearm = [\<lparr>firearm_atk_type = ''501'', firearm_atk_value = 10\<rparr>,
                        \<lparr>firearm_atk_type = ''999'', firearm_atk_value = 11\<rparr>]\<rparr>,
            \<lparr>level_info.level = 31,
             firearm = [\<lparr>firearm_atk_type = ''501'', firearm_atk_value = 20\<rparr>]\<rparr>,
            \<lparr>level_info.level = 91,
             firearm = [\<lparr>firearm_atk_type = ''999'', firearm_atk_value = 31\<rparr>,
                        \<lparr>firearm_atk_type = ''501'', firearm_atk_value = 30\<rparr>]\<rparr>,
            \<lparr>level_info.level = 121,
             firearm = [\<lparr>firearm_atk_type = ''501'', firearm_atk_value = 40\<rparr>]\<rparr>]\<rparr>"

definition crit_map :: "(string, string) dict" where
  "crit_map = [(''501'', ''Critical Hit Rate'')]"

text \<open>The operator views the window \<open>ch\<close> of a weapon and exports it.\<close>

definition export_answers :: "string \<Rightarrow> answers" where
  "export_answers ch =
     \<lparr>ans_search_term = Some ''thunder'', ans_selected = None, ans_choice = Some ch,
      ans_next_action = Some ''Output to CSV'', ans_output_dir = Some ''out'',
      ans_csv_file_name = Some ''w4''\<rparr>"

text \<open>An environment on Linux whose endpoint serves one weapon.\<close>

definition weapons_doc :: json where
  "weapons_doc = JArray [JObject [(''weapon_id'', JString ''w4''),
                                  (''weapon_name'', JString ''Thunder Cage'')]]"

definition env0 :: "json env" where
  "env0 = \<lparr>system = ''Linux'', localappdata = [], home = [''home'', ''op''],
           http_get = (\<lambda>url. if url = WEAPON_JSON_URL then Response 200 (json_dumps weapons_doc)
                              else ConnectionFailed),
           json_load = json_loads, json_dump = json_dumps\<rparr>"

text \<open>No cache yet.\<close>

definition fs_fresh :: fs where
  "fs_fresh = \<lparr>files = [], dirs = {[], [''home''], [''home'', ''op'']}\<rparr>"

text \<open>A cache written by an earlier run, holding an empty weapon list.\<close>

definition fs_cached :: fs where
  "fs_cached =
     \<lparr>files = [([''home'', ''op'', ''.config'', ''dev_tfd_search'', ''weapon.json''], ''[]'')],
      dirs = {[], [''home''], [''home'', ''op''], [''home'', ''op'', ''.config''],
              [''home'', ''op'', ''.config'', ''dev_tfd_search'']}\<rparr>"

text \<open>The cache after a fetch of the example endpoint.\<close>

definition fs_fetched :: fs where
  "fs_fetched =
     \<lparr>files = [([''home'', ''op'', ''.config'', ''dev_tfd_search'', ''weapon.json''],
                json_dumps weapons_doc)],
      dirs = {[], [''home''], [''home'', ''op''], [''home'', ''op'', ''.config''],
              [''home'', ''op'', ''.config'', ''dev_tfd_search'']}\<rparr>"

text \<open>The cache after a write that was cut right after the file was opened.\<close>

definition fs_torn :: fs where
  "fs_torn =
     \<lparr>files = [([''home'', ''op'', ''.config'', ''dev_tfd_search'', ''weapon.json''], [])],
      dirs = {[], [''home''], [''home'', ''op''], [''home'', ''op'', ''.config''],
              [''home'', ''op'', ''.config'', ''dev_tfd_search'']}\<rparr>"

section \<open>Auxiliary facts\<close>


lemma foldl_snoc_map: "foldl (\<lambda>rs x. rs @ [f x]) rs xs = rs @ map f xs"
  by (induction xs arbitrary: rs) simp_all

lemma foldl_snoc_concat:
  "foldl (\<lambda>rs x. foldl (\<lambda>rs y. rs @ [g x y]) rs (h x)) rs xs
     = rs @ concat (map (\<lambda>x. map (g x) (h x)) xs)"
  by (induction xs arbitrary: rs) (simp_all add: foldl_snoc_map)

lemma rows_simps:
  "rows (Table t) = []"
  "rows (add_column c tb) = rows tb"
  "rows (add_row r tb) = rows tb @ [r]"
  by (simp_all add: Table_def add_column_def add_row_def)

lemma rows_foldl_add_row:
  "rows (foldl (\<lambda>t x. add_row (f x) t) t xs) = rows t @ map f xs"
  by (induction xs arbitrary: t) (simp_all add: rows_simps)

lemma rows_foldl_add_row_window:
  "rows (foldl (\<lambda>t x. if P x then foldl (\<lambda>t y. add_row (g x y) t) t (h x) else t) t xs)
     = rows t @ concat (map (\<lambda>x. map (g x) (h x)) (filter P xs))"
  by (induction xs arbitrary: t) (simp_all add: rows_foldl_add_row)

lemma rows_foldl_add_row_pair:
  "rows (foldl (\<lambda>t x. add_row b (add_row (f x) t)) t xs)
     = rows t @ concat (map (\<lambda>x. [f x, b]) xs)"
  by (induction xs arbitrary: t) (simp_all add: rows_simps)

lemma str_nat_ne: "str_nat n \<noteq> []"
  by (subst str_nat.simps) simp

lemma str_int_ne: "str_int i \<noteq> []"
  by (simp add: str_int_def str_nat_ne)

lemma rows_base_stats_table:
  "rows (create_base_stats_table str_value weapon stat_map)
     = identity_rows weapon @ map (base_stat_row str_value stat_map) (base_stat weapon)"
  unfolding create_base_stats_table_def Let_def base_stat_row_def identity_rows_def
  by (simp add: rows_foldl_add_row rows_simps)

lemma find_app:
  "find P (xs @ ys) = (case find P xs of Some x \<Rightarrow> Some x | None \<Rightarrow> find P ys)"
  by (induction xs) simp_all

lemma map_of_foldl_update:
  "map_of (foldl (\<lambda>d item. AList.update (stat_item.stat_id item) (stat_name item) d) d data) k
     = (case find (\<lambda>item. stat_item.stat_id item = k) (rev data) of
          Some item \<Rightarrow> Some (stat_name item)
        | None \<Rightarrow> map_of d k)"
proof (induction data arbitrary: d)
  case Nil
  then show ?case by simp
next
  case (Cons x xs)
  show ?case
    by (simp add: Cons.IH find_app update_conv' split: option.splits)
qed

lemma keys_foldl_update:
  "fst ` set (foldl (\<lambda>d item. AList.update (stat_item.stat_id item) (stat_name item) d) d data)
     = fst ` set d \<union> stat_item.stat_id ` set data"
  by (induction data arbitrary: d) (auto simp: dom_update)

lemma distinct_foldl_update:
  "distinct (map fst d) \<Longrightarrow>
   distinct (map fst
     (foldl (\<lambda>d item. AList.update (stat_item.stat_id item) (stat_name item) d) d data))"
  by (induction data arbitrary: d) (simp_all add: distinct_update)

lemma foldl_app_concat: "foldl (\<lambda>rs x. rs @ f x) rs xs = rs @ concat (map f xs)"
  by (induction xs arbitrary: rs) simp_all

lemma prepare_csv_rows_weapon:
  "stat_map \<noteq> [] \<Longrightarrow>
   prepare_csv_rows str_value (Weapon w) (Some stat_map) = full_csv_report str_value w stat_map"
  unfolding prepare_csv_rows_def Let_def full_csv_report_def identity_rows_def
    base_stat_row_def firearm_rows_def
  by (simp add: foldl_snoc_map foldl_app_concat)

lemma prepare_csv_rows_no_stats:
  "prepare_csv_rows str_value (Weapon w) (Some []) = identity_rows w @ [[]]"
  "prepare_csv_rows str_value (Weapon w) None = identity_rows w @ [[]]"
  unfolding prepare_csv_rows_def Let_def identity_rows_def by simp_all

lemma options_eval: "options = [''1-30'', ''31-60'', ''61-90'', ''91-120'', ''121-160'']"
  by code_simp

lemma options_parse:
  "map (\<lambda>ch. map py_int (split_on CHR ''-'' ch)) options
     = map (\<lambda>(s, e). [Inr s, Inr e]) attack_ranges"
  by code_simp

lemma Back_not_option: "''Back'' \<notin> set options"
  by (simp add: options_eval)

lemma option_parses:
  assumes "ch \<in> set options"
  shows "\<exists>s e. (s, e) \<in> set attack_ranges \<and> map py_int (split_on CHR ''-'' ch) = [Inr s, Inr e]"
proof -
  from assms obtain i where i: "i < length options" "ch = options ! i"
    by (auto simp: in_set_conv_nth)
  have len: "length options = length attack_ranges" by (simp add: options_def)
  have "map py_int (split_on CHR ''-'' ch)
          = map (\<lambda>ch. map py_int (split_on CHR ''-'' ch)) options ! i"
    using i by simp
  also have "\<dots> = (\<lambda>(s, e). [Inr s, Inr e]) (attack_ranges ! i)"
    using i len by (simp add: options_parse)
  finally have "map py_int (split_on CHR ''-'' ch)
                  = [Inr (fst (attack_ranges ! i)), Inr (snd (attack_ranges ! i))]"
    by (simp add: case_prod_beta)
  moreover have "(fst (attack_ranges ! i), snd (attack_ranges ! i)) \<in> set attack_ranges"
    using i len by simp
  ultimately show ?thesis by (intro exI [of _ "fst (attack_ranges ! i)"] exI [of _ "snd (attack_ranges ! i)"] conjI)
qed

lemma display_weapon_info_window:
  assumes "ch \<in> set options" and that: "ans_choice ans = Some ch"
  shows "\<exists>s e. (s, e) \<in> set attack_ranges \<and>
           display_weapon_info str_value weapon stat_map ans =
             Inr (Some \<lparr>base_stats_table = create_base_stats_table str_value weapon stat_map,
                    firearm_attack_table =
                      create_firearm_attack_table str_value weapon stat_map s e,
                    exported =
                      (if ans_next_action ans = Some ''Output to CSV''
                       then export_json_to_csv str_value (Weapon weapon) (Some stat_map) ans
                       else None)\<rparr>)"
proof -
  from option_parses [OF assms(1)] obtain s e where
    se: "(s, e) \<in> set attack_ranges" "map py_int (split_on CHR ''-'' ch) = [Inr s, Inr e]"
    by auto
  have "ch \<noteq> ''Back''" using assms Back_not_option by blast
  then have "display_weapon_info str_value weapon stat_map ans =
             Inr (Some \<lparr>base_stats_table = create_base_stats_table str_value weapon stat_map,
                    firearm_attack_table =
                      create_firearm_attack_table str_value weapon stat_map s e,
                    exported =
                      (if ans_next_action ans = Some ''Output to CSV''
                       then export_json_to_csv str_value (Weapon weapon) (Some stat_map) ans
                       else None)\<rparr>)"
    using that se(2) by (simp add: display_weapon_info_def)
  with se(1) show ?thesis by (intro exI [of _ s] exI [of _ e] conjI)
qed

lemma str_contains_empty: "str_contains [] hay"
  by (cases hay) simp_all

lemma search_items_empty_term: "search_items items '''' key = items"
  by (simp add: search_items_def lower_def str_contains_empty)

lemma not_prefix_butlast: "p \<noteq> [] \<Longrightarrow> \<not> prefix p (butlast p)"
proof
  assume ne: "p \<noteq> []" and pre: "prefix p (butlast p)"
  have a: "length p \<le> length p - 1" using prefix_length_le [OF pre] by (simp only: length_butlast)
  have b: "length p \<noteq> 0" using ne by simp
  from a b show False by arith
qed

lemma run_cache_write:
  assumes "cache_file \<noteq> []" and "cache_file \<notin> dirs s"
    and "\<forall>p\<in>set (prefixes (dirname cache_file)). map_of (files s) p = None"
  shows "run_ops (cache_write_ops cache_file text) s
           = Inr (s\<lparr>dirs := dirs s \<union> set (prefixes (dirname cache_file)),
                    files := AList.update cache_file text (files s)\<rparr>)"
proof -
  have a: "map_of (files s) (dirname cache_file) = None"
    using assms(3) by simp
  have b: "\<not> (\<exists>p\<in>set (prefixes (dirname cache_file)). map_of (files s) p \<noteq> None)"
    using assms(3) by simp
  have c: "\<not> prefix cache_file (dirname cache_file)"
    using assms(1) by (simp add: dirname_def not_prefix_butlast)
  show ?thesis
    using a b c assms(2)
    by (simp add: cache_write_ops_def update_conv' del: in_set_prefixes)
      (simp add: a)
qed

lemma interrupted_after_open:
  assumes "cache_file \<noteq> []" and "cache_file \<notin> dirs s"
    and "\<forall>p\<in>set (prefixes (dirname cache_file)). map_of (files s) p = None"
  shows "interrupted_write 2 cache_file text s
           = Inr (s\<lparr>dirs := dirs s \<union> set (prefixes (dirname cache_file)),
                    files := AList.update cache_file [] (files s)\<rparr>)"
proof -
  have a: "map_of (files s) (dirname cache_file) = None"
    using assms(3) by simp
  have b: "\<not> (\<exists>p\<in>set (prefixes (dirname cache_file)). map_of (files s) p \<noteq> None)"
    using assms(3) by simp
  have c: "\<not> prefix cache_file (dirname cache_file)"
    using assms(1) by (simp add: dirname_def not_prefix_butlast)
  have t: "take 2 (cache_write_ops cache_file text)
             = [MakeDirs (dirname cache_file), OpenW cache_file]"
    by (simp add: cache_write_ops_def numeral_2_eq_2)
  show ?thesis
    unfolding interrupted_write_def t
    using a b c assms(2) by (simp del: in_set_prefixes) (simp add: a)
qed

lemma apply_op_other_files:
  "apply_op op s = Inr s' \<Longrightarrow> op \<in> set (cache_write_ops cache_file text) \<Longrightarrow>
   p \<noteq> cache_file \<Longrightarrow> map_of (files s') p = map_of (files s) p"
  by (auto simp: cache_write_ops_def update_conv' split: if_splits)

lemma run_ops_other_files:
  "run_ops ops s = Inr s' \<Longrightarrow> set ops \<subseteq> set (cache_write_ops cache_file text) \<Longrightarrow>
   p \<noteq> cache_file \<Longrightarrow> map_of (files s') p = map_of (files s) p"
proof (induction ops arbitrary: s)
  case Nil
  then show ?case by simp
next
  case (Cons op ops)
  from Cons.prems(1) obtain s1 where s1: "apply_op op s = Inr s1" "run_ops ops s1 = Inr s'"
    by (auto split: sum.splits)
  have "map_of (files s1) p = map_of (files s) p"
    using apply_op_other_files [OF s1(1) _ Cons.prems(3)] Cons.prems(2) by auto
  moreover have "map_of (files s') p = map_of (files s1) p"
    using Cons.IH [OF s1(2) _ Cons.prems(3)] Cons.prems(2) by auto
  ultimately show ?case by simp
qed

lemma interrupted_other_files:
  assumes "interrupted_write k cache_file text s = Inr s_k" and "p \<noteq> cache_file"
  shows "map_of (files s_k) p = map_of (files s) p"
  using run_ops_other_files [OF assms(1) [unfolded interrupted_write_def] _ assms(2)]
  by (meson set_take_subset)

lemma run_cache_write_content:
  "run_ops (cache_write_ops cache_file text) s = Inr s' \<Longrightarrow>
   map_of (files s') cache_file = Some text"
  by (auto simp: cache_write_ops_def update_conv' split: if_splits)

lemma load_eq_source:
  "(if \<not> path_exists s cache_file
    then fetch_and_cache_json url cache_file env s
    else case load_json_from_cache cache_file env s of
           Inl e \<Rightarrow> Inl e
         | Inr data \<Rightarrow> Inr (data, s))
   = load url cache_file env s"
  by (auto simp: load_def fetch_and_cache_json_def fetcher_fetch_def store_write_def
        split: response.splits option.splits sum.splits)

lemma fetch_and_cache_json_written:
  assumes "fetch_and_cache_json url cache_file env s = Inr (records, s')"
  shows "fetcher_fetch env url = Inr records
         \<and> map_of (files s') cache_file = Some (json_dump env records)"
proof -
  from assms obtain status body where
    r: "http_get env url = Response status body" "\<not> (400 \<le> status \<and> status < 600)"
       "json_load env body = Some records"
       "run_ops (cache_write_ops cache_file (json_dump env records)) s = Inr s'"
    by (auto simp: fetch_and_cache_json_def
             split: response.splits if_splits option.splits sum.splits)
  from r(1-3) have "fetcher_fetch env url = Inr records"
    by (auto simp: fetcher_fetch_def)
  with run_cache_write_content [OF r(4)] show ?thesis by simp
qed






section \<open>Search\<close>


section \<open>Stat projection\<close>

text \<open>
  C7. The rows of the firearm-attack table for the window from \<open>start_level\<close> to
  \<open>end_level\<close> are the rows of the levels inside the window (both ends included) and of
  no other level, the levels in the order of the weapon's progression and the attack
  types of a level in their order there. With levels 1, 31, 91 and 121 and the window
  (91, 120), the rows are the two level-91 entries in their order.
\<close>

theorem firearm_attack_window:
  "rows (create_firearm_attack_table str_value weapon stat_map start_level end_level)
     = concat (map (firearm_rows str_value stat_map)
                (filter (\<lambda>li. start_level \<le> level_info.level li
                               \<and> level_info.level li \<le> end_level)
                        (firearm_atk weapon)))
   \<and> rows (create_firearm_attack_table str_int w4 crit_map 91 120)
     = [[''91'', ''Unknown Stat (999)'', ''31''], [''91'', ''Critical Hit Rate'', ''30'']]"
proof -
  have "rows (create_firearm_attack_table str_value weapon stat_map start_level end_level)
     = concat (map (firearm_rows str_value stat_map)
                (filter (\<lambda>li. start_level \<le> level_info.level li
                               \<and> level_info.level li \<le> end_level)
                        (firearm_atk weapon)))"
    unfolding create_firearm_attack_table_def Let_def firearm_rows_def
    by (simp add: rows_foldl_add_row_window rows_simps)
  moreover have "rows (create_firearm_attack_table str_int w4 crit_map 91 120)
     = [[''91'', ''Unknown Stat (999)'', ''31''], [''91'', ''Critical Hit Rate'', ''30'']]"
    by code_simp
  ultimately show ?thesis by blast
qed

text \<open>
  C8. Resolving a stat identifier gives the name the map holds for it, and the string
  \<open>Unknown Stat (<id>)\<close> when the map has no such key; there is no other outcome. Under
  the map with the single entry 501, Critical Hit Rate, the identifier 501 resolves to
  \<open>Critical Hit Rate\<close> and 999 to \<open>Unknown Stat (999)\<close>. The base-stat rows of the
  on-screen table are built with this lookup.
\<close>

theorem resolve_stat_name_total:
  "resolve_stat_name stat_map sid
     = (case map_of stat_map sid of Some name \<Rightarrow> name
        | None \<Rightarrow> ''Unknown Stat ('' @ sid @ '')'')
   \<and> resolve_stat_name crit_map ''501'' = ''Critical Hit Rate''
   \<and> resolve_stat_name crit_map ''999'' = ''Unknown Stat (999)''
   \<and> rows (create_base_stats_table str_value weapon stat_map)
     = identity_rows weapon
       @ map (\<lambda>stat. [resolve_stat_name stat_map (base_stat_entry.stat_id stat),
                       str_value (stat_value stat)])
             (base_stat weapon)"
proof -
  have "resolve_stat_name stat_map sid
     = (case map_of stat_map sid of Some name \<Rightarrow> name
        | None \<Rightarrow> ''Unknown Stat ('' @ sid @ '')'')"
    by (simp add: resolve_stat_name_def dict_get_def split: option.splits)
  moreover have "resolve_stat_name crit_map ''501'' = ''Critical Hit Rate''"
    by (simp add: resolve_stat_name_def dict_get_def crit_map_def)
  moreover have "resolve_stat_name crit_map ''999'' = ''Unknown Stat (999)''"
    by (simp add: resolve_stat_name_def dict_get_def crit_map_def)
  moreover have "rows (create_base_stats_table str_value weapon stat_map)
     = identity_rows weapon
       @ map (\<lambda>stat. [resolve_stat_name stat_map (base_stat_entry.stat_id stat),
                       str_value (stat_value stat)])
             (base_stat weapon)"
    using rows_base_stats_table [of str_value weapon stat_map]
    by (simp add: base_stat_row_def [abs_def])
  ultimately show ?thesis by blast
qed

section \<open>Module reports\<close>

text \<open>
  C9. The on-screen table of a module has, for every entry of its stat progression in
  order, the data row of the entry followed by a row of three empty cells. The CSV rows
  of the same module are the name row, an empty row, the column headers and then the
  data rows alone: none of them is an empty row or a row of empty cells.
\<close>

theorem module_screen_and_csv_rows:
  "rows (create_module_stats_table m)
     = concat (map (\<lambda>stat. [module_row stat, ['''', '''', '''']]) (module_stat m))
   \<and> prepare_csv_rows str_value (Module m) stat_map
     = [[''Module Name'', module_name m], [], [''Level'', ''Capacity'', ''Value'']]
       @ map module_row (module_stat m)
   \<and> [] \<notin> set (map module_row (module_stat m))
   \<and> ['''', '''', ''''] \<notin> set (map module_row (module_stat m))"
proof -
  have "rows (create_module_stats_table m)
     = concat (map (\<lambda>stat. [module_row stat, ['''', '''', '''']]) (module_stat m))"
    unfolding create_module_stats_table_def Let_def module_row_def
    by (simp add: rows_foldl_add_row_pair rows_simps)
  moreover have "prepare_csv_rows str_value (Module m) stat_map
     = [[''Module Name'', module_name m], [], [''Level'', ''Capacity'', ''Value'']]
       @ map module_row (module_stat m)"
    unfolding prepare_csv_rows_def Let_def module_row_def
    by (simp add: foldl_snoc_map)
  moreover have "[] \<notin> set (map module_row (module_stat m))"
    by (auto simp: module_row_def)
  moreover have "['''', '''', ''''] \<notin> set (map module_row (module_stat m))"
    by (auto simp: module_row_def str_int_ne [symmetric])
  ultimately show ?thesis by blast
qed

section \<open>The stat-name map\<close>

text \<open>
  C10. The keys of the map built from the stat dataset are the identifiers that occur in
  the dataset, each once. Looking an identifier up gives the name of the last entry of
  the dataset that carries it, so the name of an earlier entry with the same identifier
  cannot be retrieved.
\<close>

theorem stat_map_of_last_wins:
  "fst ` set (stat_map_of data) = stat_item.stat_id ` set data
   \<and> distinct (map fst (stat_map_of data))
   \<and> map_of (stat_map_of data) k
     = map_option stat_name (find (\<lambda>item. stat_item.stat_id item = k) (rev data))"
proof -
  have "fst ` set (stat_map_of data) = stat_item.stat_id ` set data"
    by (simp add: stat_map_of_def keys_foldl_update)
  moreover have "distinct (map fst (stat_map_of data))"
    by (simp add: stat_map_of_def distinct_foldl_update)
  moreover have "map_of (stat_map_of data) k
     = map_option stat_name (find (\<lambda>item. stat_item.stat_id item = k) (rev data))"
    by (simp add: stat_map_of_def map_of_foldl_update split: option.splits)
  ultimately show ?thesis by blast
qed

section \<open>Search prompts\<close>

text \<open>
  C6. Both search handlers answer an empty search term with the empty-search-term
  outcome, whatever the records and the other answers are: the term is turned away
  before \<open>search_items\<close> is called, and no record is selected or displayed. (Called
  with the empty term, \<open>search_items\<close> itself would return every record; its only
  callers are the two handlers.)
\<close>

theorem empty_search_term_rejected:
  "handle_search_weapons str_value weapons stat_map weapon_names
       (ans\<lparr>ans_search_term := Some ''''\<rparr>) = Inr EmptySearchTerm
   \<and> handle_search_modules modules module_names
       (ans\<lparr>ans_search_term := Some ''''\<rparr>) = Inr EmptySearchTerm"
proof -
  have not_exit: "lower '''' \<noteq> ''exit''" by (simp add: lower_def)
  have blank: "strip '''' = []" by (simp add: strip_def)
  have "handle_search_weapons str_value weapons stat_map weapon_names
          (ans\<lparr>ans_search_term := Some ''''\<rparr>) = Inr EmptySearchTerm"
    using not_exit blank by (simp add: handle_search_weapons_def)
  moreover have "handle_search_modules modules module_names
          (ans\<lparr>ans_search_term := Some ''''\<rparr>) = Inr EmptySearchTerm"
    using not_exit blank by (simp add: handle_search_modules_def)
  ultimately show ?thesis by simp
qed

section \<open>CSV export of a weapon\<close>

text \<open>
  C1, as amended. For every weapon and every stat-name map with at least one entry,
  \<open>prepare_csv_rows\<close> returns, in order: the four identity rows, an empty row, the
  \<open>Base Stats\<close> header, one row per base-stat entry with its name resolved (the
  placeholder for an unknown identifier), an empty row, the \<open>Firearm Attack (1-160)\<close>
  header, the column headers, and the rows of every level of the firearm-attack
  progression. The map may be stale or partial, as long as it is not empty.
\<close>

theorem csv_rows_full_report:
  "stat_map \<noteq> [] \<Longrightarrow>
   prepare_csv_rows str_value (Weapon w) (Some stat_map) = full_csv_report str_value w stat_map"
proof -
  assume ne: "stat_map \<noteq> []"
  have base: "foldl (\<lambda>rs stat. rs @ [[resolve_stat_name stat_map (base_stat_entry.stat_id stat),
                                      str_value (stat_value stat)]])
                    rs0 (base_stat w)
                = rs0 @ map (base_stat_row str_value stat_map) (base_stat w)" for rs0
    by (simp add: foldl_snoc_map base_stat_row_def [abs_def])
  have atk: "foldl (\<lambda>rs level_info.
                      foldl (\<lambda>rs fa. rs @ [[str_int (level_info.level level_info),
                                             resolve_stat_name stat_map (firearm_atk_type fa),
                                             str_value (firearm_atk_value fa)]])
                            rs (firearm level_info))
                   rs0 (firearm_atk w)
               = rs0 @ concat (map (firearm_rows str_value stat_map) (firearm_atk w))" for rs0
    by (simp add: foldl_snoc_map foldl_app_concat firearm_rows_def [abs_def])
  from ne show ?thesis
    unfolding prepare_csv_rows_def Let_def
    by (simp add: base atk full_csv_report_def identity_rows_def)
qed

text \<open>The theorem at the example weapon, under a map that knows one of its two stats.\<close>

theorem csv_rows_full_report_witness:
  "crit_map \<noteq> []
   \<and> prepare_csv_rows str_int (Weapon w4) (Some crit_map)
     = [[''Weapon ID'', ''w4''], [''Weapon Type'', ''Submachine Gun''],
        [''Weapon Tier'', ''Ultimate''], [''Rounds Type'', ''General Rounds''],
        [],
        [''Base Stats''],
        [''Critical Hit Rate'', ''35''], [''Unknown Stat (999)'', ''2''],
        [],
        [''Firearm Attack (1-160)''],
        [''Level'', ''Type'', ''Value''],
        [''1'', ''Critical Hit Rate'', ''10''], [''1'', ''Unknown Stat (999)'', ''11''],
        [''31'', ''Critical Hit Rate'', ''20''],
        [''91'', ''Unknown Stat (999)'', ''31''], [''91'', ''Critical Hit Rate'', ''30''],
        [''121'', ''Critical Hit Rate'', ''40'']]"
proof -
  have ne: "crit_map \<noteq> []" by (simp add: crit_map_def)
  have "full_csv_report str_int w4 crit_map
     = [[''Weapon ID'', ''w4''], [''Weapon Type'', ''Submachine Gun''],
        [''Weapon Tier'', ''Ultimate''], [''Rounds Type'', ''General Rounds''],
        [],
        [''Base Stats''],
        [''Critical Hit Rate'', ''35''], [''Unknown Stat (999)'', ''2''],
        [],
        [''Firearm Attack (1-160)''],
        [''Level'', ''Type'', ''Value''],
        [''1'', ''Critical Hit Rate'', ''10''], [''1'', ''Unknown Stat (999)'', ''11''],
        [''31'', ''Critical Hit Rate'', ''20''],
        [''91'', ''Unknown Stat (999)'', ''31''], [''91'', ''Critical Hit Rate'', ''30''],
        [''121'', ''Critical Hit Rate'', ''40'']]"
    by code_simp
  with csv_rows_full_report [OF ne, of str_int w4] ne show ?thesis by simp
qed

text \<open>
  C1 as stated fails for the empty stat-name map: the guard \<open>if stat_map:\<close> is false
  for an empty dictionary, and the rows stop after the separator that follows the
  identity rows.
\<close>

theorem csv_rows_empty_map_counterexample:
  "prepare_csv_rows str_int (Weapon w4) (Some [])
     = [[''Weapon ID'', ''w4''], [''Weapon Type'', ''Submachine Gun''],
        [''Weapon Tier'', ''Ultimate''], [''Rounds Type'', ''General Rounds''], []]
   \<and> prepare_csv_rows str_int (Weapon w4) (Some []) \<noteq> full_csv_report str_int w4 []"
proof -
  have a: "prepare_csv_rows str_int (Weapon w4) (Some [])
     = [[''Weapon ID'', ''w4''], [''Weapon Type'', ''Submachine Gun''],
        [''Weapon Tier'', ''Ultimate''], [''Rounds Type'', ''General Rounds''], []]"
    by (simp add: prepare_csv_rows_no_stats identity_rows_def w4_def)
  have b: "length (prepare_csv_rows str_int (Weapon w4) (Some [])) = 5"
    by (simp add: a)
  have c: "length (full_csv_report str_int w4 []) = 17"
    by (simp add: full_csv_report_def identity_rows_def w4_def firearm_rows_def)
  have "prepare_csv_rows str_int (Weapon w4) (Some []) \<noteq> full_csv_report str_int w4 []"
  proof
    assume "prepare_csv_rows str_int (Weapon w4) (Some []) = full_csv_report str_int w4 []"
    then have "length (prepare_csv_rows str_int (Weapon w4) (Some []))
                 = length (full_csv_report str_int w4 [])"
      by simp
    with b c show False by simp
  qed
  with a show ?thesis by simp
qed

text \<open>
  C2, as amended. For every weapon and every stat-name map with at least one entry,
  whichever of the five windows the operator displays before exporting, the exported
  rows are the full report: they end with the rows of every level of the progression,
  in order, so every level entry is among them.
\<close>

theorem export_rows_window_independent:
  assumes "stat_map \<noteq> []"
    and "ch \<in> set options"
    and "ans_choice ans = Some ch"
    and "ans_next_action ans = Some ''Output to CSV''"
    and "ans_output_dir ans = Some dir" and "dir \<noteq> []"
    and "ans_csv_file_name ans = Some name" and "name \<noteq> []"
  shows "exported_rows (display_weapon_info str_value weapon stat_map ans)
           = Some (full_csv_report str_value weapon stat_map)
         \<and> suffix (concat (map (firearm_rows str_value stat_map) (firearm_atk weapon)))
                  (full_csv_report str_value weapon stat_map)
         \<and> (\<forall>li \<in> set (firearm_atk weapon).
               set (firearm_rows str_value stat_map li)
                 \<subseteq> set (full_csv_report str_value weapon stat_map))"
proof -
  from display_weapon_info_window [OF assms(2,3), of str_value weapon stat_map] obtain s e where
    d: "display_weapon_info str_value weapon stat_map ans =
             Inr (Some \<lparr>base_stats_table = create_base_stats_table str_value weapon stat_map,
                    firearm_attack_table =
                      create_firearm_attack_table str_value weapon stat_map s e,
                    exported =
                      (if ans_next_action ans = Some ''Output to CSV''
                       then export_json_to_csv str_value (Weapon weapon) (Some stat_map) ans
                       else None)\<rparr>)"
    by auto
  have "export_json_to_csv str_value (Weapon weapon) (Some stat_map) ans
          = Some (path_join dir (name @ ''.csv''), full_csv_report str_value weapon stat_map)"
    using assms(1,5-8)
    by (simp add: export_json_to_csv_def get_csv_file_path_def prepare_csv_rows_weapon)
  with d assms(4) have "exported_rows (display_weapon_info str_value weapon stat_map ans)
           = Some (full_csv_report str_value weapon stat_map)"
    by (simp add: exported_rows_def)
  moreover have "suffix (concat (map (firearm_rows str_value stat_map) (firearm_atk weapon)))
                  (full_csv_report str_value weapon stat_map)"
    unfolding full_csv_report_def suffix_def by (metis append.assoc)
  moreover have "\<forall>li \<in> set (firearm_atk weapon).
               set (firearm_rows str_value stat_map li)
                 \<subseteq> set (full_csv_report str_value weapon stat_map)"
    by (auto simp: full_csv_report_def)
  ultimately show ?thesis by blast
qed

text \<open>
  The theorem at the example weapon: the window (1, 30) shows the level-1 rows only,
  and the export made from that screen has the level-121 row.
\<close>

theorem export_rows_window_independent_witness:
  "crit_map \<noteq> [] \<and> ''1-30'' \<in> set options
   \<and> shown_rows (display_weapon_info str_int w4 crit_map (export_answers ''1-30''))
     = Some [[''1'', ''Critical Hit Rate'', ''10''], [''1'', ''Unknown Stat (999)'', ''11'']]
   \<and> exported_rows (display_weapon_info str_int w4 crit_map (export_answers ''1-30''))
     = Some (full_csv_report str_int w4 crit_map)
   \<and> [''121'', ''Critical Hit Rate'', ''40''] \<in> set (full_csv_report str_int w4 crit_map)"
proof -
  have ne: "crit_map \<noteq> []" by (simp add: crit_map_def)
  have opt: "''1-30'' \<in> set options" by (simp add: options_eval)
  have sh: "shown_rows (display_weapon_info str_int w4 crit_map (export_answers ''1-30''))
     = Some [[''1'', ''Critical Hit Rate'', ''10''], [''1'', ''Unknown Stat (999)'', ''11'']]"
    by code_simp
  have li: "\<lparr>level_info.level = 121,
             firearm = [\<lparr>firearm_atk_type = ''501'', firearm_atk_value = 40\<rparr>]\<rparr>
              \<in> set (firearm_atk w4)"
    by (simp add: w4_def)
  have r: "[''121'', ''Critical Hit Rate'', ''40'']
             \<in> set (firearm_rows str_int crit_map
                  \<lparr>level_info.level = 121,
                   firearm = [\<lparr>firearm_atk_type = ''501'', firearm_atk_value = 40\<rparr>]\<rparr>)"
    by code_simp
  from export_rows_window_independent
         [OF ne opt, of "export_answers ''1-30''" "''out''" "''w4''" str_int w4]
  have "exported_rows (display_weapon_info str_int w4 crit_map (export_answers ''1-30''))
           = Some (full_csv_report str_int w4 crit_map)
        \<and> (\<forall>li \<in> set (firearm_atk w4).
               set (firearm_rows str_int crit_map li)
                 \<subseteq> set (full_csv_report str_int w4 crit_map))"
    by (simp add: export_answers_def)
  with li r ne opt sh show ?thesis by blast
qed

text \<open>
  C2 as stated fails for the empty stat-name map: the export made after viewing the
  window (1, 30) has the identity rows and the separator only, and the level-121 entry
  of the progression is not among them.
\<close>

theorem export_rows_empty_map_counterexample:
  "exported_rows (display_weapon_info str_int w4 [] (export_answers ''1-30''))
     = Some [[''Weapon ID'', ''w4''], [''Weapon Type'', ''Submachine Gun''],
             [''Weapon Tier'', ''Ultimate''], [''Rounds Type'', ''General Rounds''], []]
   \<and> [''121'', ''Unknown Stat (501)'', ''40'']
       \<in> set (concat (map (firearm_rows str_int []) (firearm_atk w4)))"
proof -
  have "exported_rows (display_weapon_info str_int w4 [] (export_answers ''1-30''))
     = Some [[''Weapon ID'', ''w4''], [''Weapon Type'', ''Submachine Gun''],
             [''Weapon Tier'', ''Ultimate''], [''Rounds Type'', ''General Rounds''], []]"
    by code_simp
  moreover have "[''121'', ''Unknown Stat (501)'', ''40'']
       \<in> set (concat (map (firearm_rows str_int []) (firearm_atk w4)))"
    by code_simp
  ultimately show ?thesis by blast
qed

section \<open>The dataset loader\<close>

text \<open>
  C4. Each of the three loaders is the specification's \<open>load\<close> on its own URL and cache
  file: when the cache file exists its content is read and returned and nothing is
  fetched or written; otherwise the records are fetched, written to the cache file and
  returned. (\<open>load_stat_data\<close> returns the stat-name map built from the records so
  loaded.) Whenever \<open>fetch_and_cache_json\<close> returns records, they are the records
  fetched and the cache file holds their JSON text: there is no fetch without the write.
\<close>

theorem load_cache_or_fetch:
  "load_weapon_data env s = load WEAPON_JSON_URL (CACHE_FILE env) env s
   \<and> load_module_data env s = load MODULE_JSON_URL (MODULE_CACHE_FILE env) env s
   \<and> load_stat_data senv s
     = (case load STAT_JSON_URL (STAT_CACHE_FILE senv) senv s of
          Inl e \<Rightarrow> Inl e
        | Inr (records, s') \<Rightarrow> Inr (stat_map_of records, s'))
   \<and> (\<forall>text records.
         cache_file \<notin> dirs s \<and> map_of (files s) cache_file = Some text
         \<and> json_load env text = Some records
         \<longrightarrow> load url cache_file env s = Inr (records, s))
   \<and> (\<forall>records s'.
         \<not> path_exists s cache_file \<and> fetcher_fetch env url = Inr records
         \<and> store_write cache_file env records s = Inr s'
         \<longrightarrow> load url cache_file env s = Inr (records, s'))
   \<and> (\<forall>records s'.
         \<not> path_exists s cache_file \<and> load url cache_file env s = Inr (records, s')
         \<longrightarrow> fetcher_fetch env url = Inr records
             \<and> map_of (files s') cache_file = Some (json_dump env records))
   \<and> (\<forall>records s'.
         fetch_and_cache_json url cache_file env s = Inr (records, s')
         \<longrightarrow> fetcher_fetch env url = Inr records
             \<and> map_of (files s') cache_file = Some (json_dump env records))"
proof -
  have w: "load_weapon_data env s = load WEAPON_JSON_URL (CACHE_FILE env) env s"
    unfolding load_weapon_data_def by (rule load_eq_source)
  have m: "load_module_data env s = load MODULE_JSON_URL (MODULE_CACHE_FILE env) env s"
    unfolding load_module_data_def by (rule load_eq_source)
  have st: "load_stat_data senv s
     = (case load STAT_JSON_URL (STAT_CACHE_FILE senv) senv s of
          Inl e \<Rightarrow> Inl e
        | Inr (records, s') \<Rightarrow> Inr (stat_map_of records, s'))"
    unfolding load_stat_data_def by (simp only: load_eq_source)
  have hit: "\<forall>text records.
         cache_file \<notin> dirs s \<and> map_of (files s) cache_file = Some text
         \<and> json_load env text = Some records
         \<longrightarrow> load url cache_file env s = Inr (records, s)"
    by (simp add: load_def path_exists_def load_json_from_cache_def)
  have miss: "\<forall>records s'.
         \<not> path_exists s cache_file \<and> fetcher_fetch env url = Inr records
         \<and> store_write cache_file env records s = Inr s'
         \<longrightarrow> load url cache_file env s = Inr (records, s')"
    by (simp add: load_def)
  have fc: "\<forall>records s'.
         fetch_and_cache_json url cache_file env s = Inr (records, s')
         \<longrightarrow> fetcher_fetch env url = Inr records
             \<and> map_of (files s') cache_file = Some (json_dump env records)"
    by (intro allI impI) (rule fetch_and_cache_json_written)
  have miss2: "\<forall>records s'.
         \<not> path_exists s cache_file \<and> load url cache_file env s = Inr (records, s')
         \<longrightarrow> fetcher_fetch env url = Inr records
             \<and> map_of (files s') cache_file = Some (json_dump env records)"
  proof (intro allI impI)
    fix records s'
    assume a: "\<not> path_exists s cache_file \<and> load url cache_file env s = Inr (records, s')"
    then have "fetch_and_cache_json url cache_file env s = Inr (records, s')"
      using load_eq_source [of s cache_file url env] by simp
    then show "fetcher_fetch env url = Inr records
             \<and> map_of (files s') cache_file = Some (json_dump env records)"
      by (rule fetch_and_cache_json_written)
  qed
  from w m st hit miss miss2 fc show ?thesis by blast
qed

text \<open>
  The theorem at the example environment: a cache hit returns the cached list and leaves
  the file system as it is; with no cache the weapon is fetched and the cache written.
\<close>

theorem load_cache_or_fetch_witness:
  "load_weapon_data env0 fs_cached = Inr (JArray [], fs_cached)
   \<and> \<not> path_exists fs_fresh (CACHE_FILE env0)
   \<and> load_weapon_data env0 fs_fresh = Inr (weapons_doc, fs_fetched)
   \<and> fetcher_fetch env0 WEAPON_JSON_URL = Inr weapons_doc
   \<and> map_of (files fs_fetched) (CACHE_FILE env0) = Some (json_dumps weapons_doc)"
proof -
  have cf: "CACHE_FILE env0 = [''home'', ''op'', ''.config'', ''dev_tfd_search'', ''weapon.json'']"
    by (simp add: CACHE_FILE_def CACHE_DIR_def get_cache_dir_def env0_def)
  have h1: "CACHE_FILE env0 \<notin> dirs fs_cached" by (simp add: cf fs_cached_def)
  have h2: "map_of (files fs_cached) (CACHE_FILE env0) = Some ''[]''"
    by (simp add: cf fs_cached_def)
  have h3: "json_load env0 ''[]'' = Some (JArray [])"
    unfolding env0_def by simp code_simp
  have n1: "\<not> path_exists fs_fresh (CACHE_FILE env0)"
    by (simp add: cf fs_fresh_def path_exists_def)
  have l: "load_weapon_data env0 fs_fresh = Inr (weapons_doc, fs_fetched)"
    by code_simp
  have d: "json_dump env0 = json_dumps" by (simp add: env0_def)
  note t = load_cache_or_fetch [of env0 _ _ "CACHE_FILE env0" WEAPON_JSON_URL]
  from t [of fs_cached] h1 h2 h3
  have a: "load_weapon_data env0 fs_cached = Inr (JArray [], fs_cached)" by metis
  from t [of fs_fresh] n1 l
  have b: "fetcher_fetch env0 WEAPON_JSON_URL = Inr weapons_doc
           \<and> map_of (files fs_fetched) (CACHE_FILE env0) = Some (json_dump env0 weapons_doc)"
    by metis
  from a b n1 l d show ?thesis by simp
qed

section \<open>Writing the cache file\<close>

text \<open>
  C3, as amended. For every cache file and JSON text, where the cache path is not a
  directory and no ancestor of it is a regular file, the write creates the parent
  directories as needed and overwrites the cache file in place: the completed write
  leaves the new text in the cache file whatever it held before; the write opens the
  cache file itself, so a run cut right after the open leaves it empty; and at no point
  of the write is any other file created or changed (there is no temporary file to
  rename).
\<close>

theorem cache_write_in_place:
  assumes "cache_file \<noteq> []" and "cache_file \<notin> dirs s"
    and "\<forall>p\<in>set (prefixes (dirname cache_file)). map_of (files s) p = None"
  shows "(\<exists>s'. run_ops (cache_write_ops cache_file text) s = Inr s'
            \<and> set (prefixes (dirname cache_file)) \<subseteq> dirs s'
            \<and> map_of (files s') = (map_of (files s))(cache_file \<mapsto> text))
         \<and> (\<exists>s2. interrupted_write 2 cache_file text s = Inr s2
            \<and> map_of (files s2) = (map_of (files s))(cache_file \<mapsto> []))
         \<and> (\<forall>k s_k p. interrupted_write k cache_file text s = Inr s_k \<and> p \<noteq> cache_file
              \<longrightarrow> map_of (files s_k) p = map_of (files s) p)"
proof -
  have "\<exists>s'. run_ops (cache_write_ops cache_file text) s = Inr s'
            \<and> set (prefixes (dirname cache_file)) \<subseteq> dirs s'
            \<and> map_of (files s') = (map_of (files s))(cache_file \<mapsto> text)"
    using run_cache_write [OF assms, of "text"] by (simp add: update_conv')
  moreover have "\<exists>s2. interrupted_write 2 cache_file text s = Inr s2
            \<and> map_of (files s2) = (map_of (files s))(cache_file \<mapsto> [])"
    using interrupted_after_open [OF assms, of "text"] by (simp add: update_conv')
  moreover have "\<forall>k s_k p. interrupted_write k cache_file text s = Inr s_k \<and> p \<noteq> cache_file
              \<longrightarrow> map_of (files s_k) p = map_of (files s) p"
    using interrupted_other_files by blast
  ultimately show ?thesis by blast
qed

text \<open>The theorem at the example environment, over an existing cache.\<close>

theorem cache_write_in_place_witness:
  "CACHE_FILE env0 \<noteq> [] \<and> CACHE_FILE env0 \<notin> dirs fs_cached
   \<and> (\<exists>s'. run_ops (cache_write_ops (CACHE_FILE env0) (json_dumps weapons_doc)) fs_cached = Inr s'
          \<and> map_of (files s') (CACHE_FILE env0) = Some (json_dumps weapons_doc))
   \<and> (\<exists>s2. interrupted_write 2 (CACHE_FILE env0) (json_dumps weapons_doc) fs_cached = Inr s2
          \<and> map_of (files s2) (CACHE_FILE env0) = Some [])"
proof -
  have cf: "CACHE_FILE env0 = [''home'', ''op'', ''.config'', ''dev_tfd_search'', ''weapon.json'']"
    by (simp add: CACHE_FILE_def CACHE_DIR_def get_cache_dir_def env0_def)
  have h1: "CACHE_FILE env0 \<noteq> []" by (simp add: cf)
  have h2: "CACHE_FILE env0 \<notin> dirs fs_cached" by (simp add: cf fs_cached_def)
  have h3: "\<forall>p\<in>set (prefixes (dirname (CACHE_FILE env0))). map_of (files fs_cached) p = None"
    by (auto simp: cf fs_cached_def dirname_def)
  from cache_write_in_place [OF h1 h2 h3, of "json_dumps weapons_doc"] h1 h2
  show ?thesis by auto
qed

text \<open>
  C3 as stated fails: the cache holds a list that loads; a refresh is cut after the
  cache file is opened and before the text is written; the file is then empty, which is
  not JSON, and the next start of the program fails to load the weapons.
\<close>

theorem cache_write_not_atomic_counterexample:
  "map_of (files fs_cached) (CACHE_FILE env0) = Some ''[]''
   \<and> load_weapon_data env0 fs_cached = Inr (JArray [], fs_cached)
   \<and> interrupted_write 2 (CACHE_FILE env0) (json_dumps weapons_doc) fs_cached = Inr fs_torn
   \<and> map_of (files fs_torn) (CACHE_FILE env0) = Some []
   \<and> json_loads [] = None
   \<and> load_weapon_data env0 fs_torn = Inl JSONDecodeError"
proof -
  have "map_of (files fs_cached) (CACHE_FILE env0) = Some ''[]''" by code_simp
  moreover have "load_weapon_data env0 fs_cached = Inr (JArray [], fs_cached)" by code_simp
  moreover have "interrupted_write 2 (CACHE_FILE env0) (json_dumps weapons_doc) fs_cached
                   = Inr fs_torn"
    by code_simp
  moreover have "map_of (files fs_torn) (CACHE_FILE env0) = Some []" by code_simp
  moreover have "json_loads [] = None" by code_simp
  moreover have "load_weapon_data env0 fs_torn = Inl JSONDecodeError" by code_simp
  ultimately show ?thesis by blast
qed

end
